theory Spec2Isabelle
  imports Main "HOL-Library.Finite_Map"
begin

section \<open>JSON documents\<close>

text \<open>
  The values that \<^verbatim>\<open>JSON.parse\<close> produces and \<^verbatim>\<open>JSON.stringify\<close> prints. An object is a
  finite map from property names to values, so two objects are equal when they have the same
  properties, whatever the order. A JavaScript number is an IEEE double; the documents here
  hold whole numbers (identifiers, the version counter), and \<open>JNum n\<close> is the double whose
  value is the integer \<open>n\<close>. Every integer from \<open>-2^53\<close> to \<open>2^53\<close> is such a double;
  beyond that only some are, and the others do not occur in a parsed document.
\<close>

datatype json =
    JNull
  | JBool bool
  | JNum int
  | JStr string
  | JArr "json list"
  | JObj "(string, json) fmap"

type_synonym props = "(string, json) fmap"

text \<open>
  The name of an index property: the index in decimal, \<^verbatim>\<open>String(i)\<close>. The digits are
  produced from the least significant one, with the index itself as the bound on their number.
\<close>

definition digit_char :: "nat \<Rightarrow> char" where
  "digit_char d = char_of (d + 48)"

fun index_digits :: "nat \<Rightarrow> nat \<Rightarrow> string" where
  "index_digits 0 i = []"
| "index_digits (Suc bound) i =
     (if i = 0 then [] else index_digits bound (i div 10) @ [digit_char (i mod 10)])"

definition index_name :: "nat \<Rightarrow> string" where
  "index_name i = (if i = 0 then ''0'' else index_digits i i)"

text \<open>
  The own enumerable properties that an object spread \<^verbatim>\<open>{...v}\<close> copies and that
  \<^verbatim>\<open>v[field]\<close> can find with a string value: the properties of an object, the indexed
  elements of an array, the indexed characters of a string, nothing for the other values.
\<close>

definition own_props :: "json \<Rightarrow> props" where
  "own_props v =
     (case v of
        JObj m \<Rightarrow> m
      | JArr xs \<Rightarrow> fmap_of_list (zip (map index_name [0..<length xs]) xs)
      | JStr s \<Rightarrow> fmap_of_list (zip (map index_name [0..<length s]) (map (\<lambda>c. JStr [c]) s))
      | _ \<Rightarrow> fmempty)"

section \<open>The file system and its errors\<close>

text \<open>
  A file holds either a JSON document or text that \<^verbatim>\<open>JSON.parse\<close> rejects. The text
  \<^verbatim>\<open>JSON.stringify(data, null, 2) + '\n'\<close> that \<^verbatim>\<open>writeJson\<close> writes is kept as the document
  it denotes, \<open>Json data\<close>. A path names a file, a directory, or nothing. Parent directories are
  not modelled: the parent of every path is taken to exist and to be writable.
\<close>

datatype content = Json json | NotJson string

datatype node = File content | Dir

type_synonym fs = "string \<Rightarrow> node option"

datatype error =
    ENOENT string
  | EISDIR string
  | ENOTDIR string
  | SyntaxError
  | TypeError
  | NotFound int
  | Protected

text \<open>
  An asynchronous operation takes the file system and returns its result or the error it
  throws, together with the file system it leaves behind: an exception does not undo the
  writes made before it.
\<close>

type_synonym 'a io = "fs \<Rightarrow> (error + 'a) \<times> fs"

definition io_return :: "'a \<Rightarrow> 'a io" where
  "io_return x = (\<lambda>s. (Inr x, s))"

definition io_throw :: "error \<Rightarrow> 'a io" where
  "io_throw e = (\<lambda>s. (Inl e, s))"

definition io_bind :: "'a io \<Rightarrow> ('a \<Rightarrow> 'b io) \<Rightarrow> 'b io" where
  "io_bind m f = (\<lambda>s. case m s of (Inl e, s') \<Rightarrow> (Inl e, s') | (Inr x, s') \<Rightarrow> f x s')"

text \<open>\<^verbatim>\<open>try { m } catch { }\<close>: whatever \<open>m\<close> throws is dropped.\<close>

definition io_try :: "unit io \<Rightarrow> unit io" where
  "io_try m = (\<lambda>s. case m s of (_, s') \<Rightarrow> (Inr (), s'))"

definition io_lift :: "error + 'a \<Rightarrow> 'a io" where
  "io_lift r = (\<lambda>s. (r, s))"

subsection \<open>The primitives of \<^verbatim>\<open>node:fs/promises\<close>\<close>

definition fs_access :: "string \<Rightarrow> unit io" where
  "fs_access p = (\<lambda>s. case s p of None \<Rightarrow> (Inl (ENOENT p), s) | Some _ \<Rightarrow> (Inr (), s))"

definition fs_readFile :: "string \<Rightarrow> content io" where
  "fs_readFile p =
     (\<lambda>s. case s p of
        None \<Rightarrow> (Inl (ENOENT p), s)
      | Some Dir \<Rightarrow> (Inl (EISDIR p), s)
      | Some (File c) \<Rightarrow> (Inr c, s))"

definition fs_writeFile :: "string \<Rightarrow> content \<Rightarrow> unit io" where
  "fs_writeFile p c =
     (\<lambda>s. case s p of
        Some Dir \<Rightarrow> (Inl (EISDIR p), s)
      | _ \<Rightarrow> (Inr (), s(p \<mapsto> File c)))"

definition fs_copyFile :: "string \<Rightarrow> string \<Rightarrow> unit io" where
  "fs_copyFile src dest =
     (\<lambda>s. case s src of
        None \<Rightarrow> (Inl (ENOENT src), s)
      | Some Dir \<Rightarrow> (Inl (EISDIR src), s)
      | Some (File c) \<Rightarrow>
          (case s dest of
             Some Dir \<Rightarrow> (Inl (EISDIR dest), s)
           | _ \<Rightarrow> (Inr (), s(dest \<mapsto> File c))))"

definition fs_rename :: "string \<Rightarrow> string \<Rightarrow> unit io" where
  "fs_rename old new =
     (\<lambda>s. case s old of
        None \<Rightarrow> (Inl (ENOENT old), s)
      | Some (File c) \<Rightarrow>
          (case s new of
             Some Dir \<Rightarrow> (Inl (EISDIR new), s)
           | _ \<Rightarrow> (Inr (), (s(old := None))(new \<mapsto> File c)))
      | Some Dir \<Rightarrow>
          (case s new of
             Some (File _) \<Rightarrow> (Inl (ENOTDIR new), s)
           | _ \<Rightarrow> (Inr (), (s(old := None))(new \<mapsto> Dir))))"

definition JSON_parse :: "content \<Rightarrow> error + json" where
  "JSON_parse raw = (case raw of Json v \<Rightarrow> Inr v | NotJson _ \<Rightarrow> Inl SyntaxError)"

definition JSON_stringify :: "json \<Rightarrow> content" where
  "JSON_stringify v = Json v"

text \<open>
  \<^verbatim>\<open>path.join\<close> belongs to the platform: it joins the segments with the platform's separator
  and normalises the result. The classes below take it as the parameter \<open>join\<close>, so that
  what is proved of them holds for every such function. \<open>path_join\<close> is the POSIX one on
  segments that are plain names or paths without \<^verbatim>\<open>.\<close>, \<^verbatim>\<open>..\<close> and doubled or trailing
  separators: empty segments are dropped, the others are joined by \<^verbatim>\<open>/\<close>, and joining
  nothing gives \<^verbatim>\<open>.\<close>. It is used for the concrete projects only.
\<close>

type_synonym joiner = "string list \<Rightarrow> string"

fun join_segments :: "string list \<Rightarrow> string" where
  "join_segments [] = []"
| "join_segments [p] = p"
| "join_segments (p # q # ps) = p @ ''/'' @ join_segments (q # ps)"

definition path_join :: joiner where
  "path_join segments =
     (let ps = filter (\<lambda>p. p \<noteq> []) segments
      in if ps = [] then ''.'' else join_segments ps)"

section \<open>FileHandler\<close>

definition readJsonRaw :: "string \<Rightarrow> json io" where
  "readJsonRaw filePath =
     io_bind (fs_readFile filePath) (\<lambda>raw. io_lift (JSON_parse raw))"

definition writeJson :: "string \<Rightarrow> json \<Rightarrow> unit io" where
  "writeJson filePath data =
     (let tmpPath = filePath @ ''.tmp'';
          bakPath = filePath @ ''.bak''
      in io_bind
           (io_try (io_bind (fs_access filePath) (\<lambda>_. fs_copyFile filePath bakPath)))
           (\<lambda>_. io_bind (fs_writeFile tmpPath (JSON_stringify data))
              (\<lambda>_. fs_rename tmpPath filePath)))"

definition exists_file :: "string \<Rightarrow> bool io" where
  "exists_file filePath =
     (\<lambda>s. case fs_access filePath s of (Inl _, s') \<Rightarrow> (Inr False, s') | (Inr _, s') \<Rightarrow> (Inr True, s'))"

section \<open>VersionSync\<close>

record VersionSync =
  systemPath :: string

definition VersionSync_new :: "joiner \<Rightarrow> string \<Rightarrow> VersionSync" where
  "VersionSync_new join projectPath =
     \<lparr>systemPath = join [projectPath, ''data'', ''System.json'']\<rparr>"

text \<open>
  \<^verbatim>\<open>typeof system.versionId === 'number' ? system.versionId : 0\<close>. Reading a property of
  \<^verbatim>\<open>null\<close> throws; every other value without a numeric \<^verbatim>\<open>versionId\<close> gives 0.
\<close>

definition read_versionId :: "json \<Rightarrow> error + int" where
  "read_versionId system =
     (case system of
        JNull \<Rightarrow> Inl TypeError
      | JObj m \<Rightarrow> (case fmlookup m ''versionId'' of Some (JNum n) \<Rightarrow> Inr n | _ \<Rightarrow> Inr 0)
      | _ \<Rightarrow> Inr 0)"

text \<open>
  \<^verbatim>\<open>system.versionId = next\<close> in a strict-mode module: it sets the property of an object,
  throws on a primitive, and on an array sets a property that \<^verbatim>\<open>JSON.stringify\<close> does not
  print.
\<close>

definition assign_versionId :: "json \<Rightarrow> int \<Rightarrow> error + json" where
  "assign_versionId system next =
     (case system of
        JObj m \<Rightarrow> Inr (JObj (fmupd ''versionId'' (JNum next) m))
      | JArr xs \<Rightarrow> Inr (JArr xs)
      | _ \<Rightarrow> Inl TypeError)"

text \<open>
  \<^verbatim>\<open>current + 1\<close> is an addition of doubles. From \<open>-2^53\<close> up to \<open>2^53 - 1\<close> it is exact.
  From \<open>2^53\<close> up to \<open>2^54\<close> in magnitude the doubles are the even integers, \<open>n + 1\<close> lies
  halfway between \<open>n\<close> and \<open>n + 2\<close>, and the sum is rounded to the one of the two whose
  significand \<open>n div 2\<close> is even. Beyond \<open>2^54\<close> the doubles are at least 4 apart and the
  sum is \<open>n\<close> again.
\<close>

definition add_one :: "int \<Rightarrow> int" where
  "add_one n =
     (if - (2 ^ 53) \<le> n \<and> n < 2 ^ 53 then n + 1
      else if - (2 ^ 54) \<le> n \<and> n < 2 ^ 54 then (if even (n div 2) then n else n + 2)
      else n)"

definition bump :: "VersionSync \<Rightarrow> int io" where
  "bump vs =
     io_bind (readJsonRaw (systemPath vs)) (\<lambda>system.
     io_bind (io_lift (read_versionId system)) (\<lambda>current.
       let next = add_one current in
       io_bind (io_lift (assign_versionId system next)) (\<lambda>system'.
       io_bind (writeJson (systemPath vs) system') (\<lambda>_.
       io_return next))))"

definition current :: "VersionSync \<Rightarrow> int io" where
  "current vs =
     io_bind (readJsonRaw (systemPath vs)) (\<lambda>system. io_lift (read_versionId system))"

section \<open>DatabaseManager\<close>

record DatabaseManager =
  filePath :: string
  versionSync :: VersionSync
  defaultFactory :: "int \<Rightarrow> props"

definition DatabaseManager_new ::
  "joiner \<Rightarrow> string \<Rightarrow> string \<Rightarrow> (int \<Rightarrow> props) \<Rightarrow> VersionSync \<Rightarrow> DatabaseManager" where
  "DatabaseManager_new join projectPath filename factory vs =
     \<lparr>filePath = join [projectPath, ''data'', filename],
      versionSync = vs,
      defaultFactory = factory\<rparr>"

text \<open>
  \<^verbatim>\<open>readArray\<close> casts the parsed document to \<^verbatim>\<open>(T | null)[]\<close> without a check. The
  operations below follow the source on every JSON array. On a document that is not an array
  they stop with \<open>TypeError\<close>: that is what \<^verbatim>\<open>list\<close> and \<^verbatim>\<open>create\<close> do in JavaScript
  (\<^verbatim>\<open>arr.filter\<close> and \<^verbatim>\<open>arr.push\<close> are not functions there), while for \<^verbatim>\<open>get\<close>,
  \<^verbatim>\<open>update\<close> and \<^verbatim>\<open>delete\<close> the behaviour of JavaScript on such an ill-typed document is
  not followed further.
\<close>

definition readArray :: "DatabaseManager \<Rightarrow> json io" where
  "readArray db = readJsonRaw (filePath db)"

definition writeArray :: "DatabaseManager \<Rightarrow> json list \<Rightarrow> unit io" where
  "writeArray db data =
     io_bind (writeJson (filePath db) (JArr data)) (\<lambda>_.
     io_bind (bump (versionSync db)) (\<lambda>_. io_return ()))"

text \<open>
  Three names differ from the source because the source's are taken: \<^verbatim>\<open>list\<close> is
  \<open>list_entities\<close>, \<^verbatim>\<open>FileHandler.exists\<close> is \<open>exists_file\<close>, and the parameter
  \<^verbatim>\<open>fields\<close> of \<^verbatim>\<open>search\<close> is \<open>fieldNames\<close>.
\<close>

definition as_array :: "json \<Rightarrow> json list io" where
  "as_array v = (case v of JArr xs \<Rightarrow> io_return xs | _ \<Rightarrow> io_throw TypeError)"

definition list_entities :: "DatabaseManager \<Rightarrow> json list io" where
  "list_entities db =
     io_bind (readArray db) (\<lambda>v. io_bind (as_array v) (\<lambda>arr.
       io_return (filter (\<lambda>e. e \<noteq> JNull) arr)))"

text \<open>\<^verbatim>\<open>id < 1 || id >= arr.length || arr[id] === null\<close>\<close>

definition missing :: "json list \<Rightarrow> int \<Rightarrow> bool" where
  "missing arr i \<longleftrightarrow> i < 1 \<or> i \<ge> int (length arr) \<or> arr ! nat i = JNull"

definition get :: "DatabaseManager \<Rightarrow> int \<Rightarrow> json io" where
  "get db i =
     io_bind (readArray db) (\<lambda>v. io_bind (as_array v) (\<lambda>arr.
       if missing arr i then io_throw (NotFound i)
       else io_return (arr ! nat i)))"

definition create :: "DatabaseManager \<Rightarrow> props \<Rightarrow> (int \<times> json) io" where
  "create db data =
     io_bind (readArray db) (\<lambda>v. io_bind (as_array v) (\<lambda>arr.
       let i = int (length arr);
           entity = JObj (fmupd ''id'' (JNum i) (defaultFactory db i ++\<^sub>f data))
       in io_bind (writeArray db (arr @ [entity])) (\<lambda>_. io_return (i, entity))))"

definition update :: "DatabaseManager \<Rightarrow> int \<Rightarrow> props \<Rightarrow> json io" where
  "update db i data =
     io_bind (readArray db) (\<lambda>v. io_bind (as_array v) (\<lambda>arr.
       if missing arr i then io_throw (NotFound i)
       else
         let existing = arr ! nat i;
             updated = JObj (fmupd ''id'' (JNum i) (own_props existing ++\<^sub>f data))
         in io_bind (writeArray db (arr[nat i := updated])) (\<lambda>_. io_return updated)))"

definition delete :: "DatabaseManager \<Rightarrow> int \<Rightarrow> bool \<Rightarrow> unit io" where
  "delete db i protectFirst =
     (if protectFirst \<and> i = 1 then io_throw Protected
      else
        io_bind (readArray db) (\<lambda>v. io_bind (as_array v) (\<lambda>arr.
          if missing arr i then io_throw (NotFound i)
          else writeArray db (arr[nat i := JNull]))))"

text \<open>
  \<^verbatim>\<open>toLowerCase\<close> on the ASCII letters and \<^verbatim>\<open>includes\<close> as a substring test.
\<close>

definition toLowerCase :: "string \<Rightarrow> string" where
  "toLowerCase s =
     map (\<lambda>c. let n = (of_char c :: nat) in if 65 \<le> n \<and> n \<le> 90 then char_of (n + 32) else c) s"

fun includes_str :: "string \<Rightarrow> string \<Rightarrow> bool" where
  "includes_str [] q = (q = [])"
| "includes_str (c # cs) q = (take (length q) (c # cs) = q \<or> includes_str cs q)"

definition search :: "DatabaseManager \<Rightarrow> string \<Rightarrow> string list \<Rightarrow> json list io" where
  "search db query fieldNames =
     io_bind (list_entities db) (\<lambda>entities.
       let lowerQuery = toLowerCase query in
       io_return
         (filter (\<lambda>entity.
            list_ex (\<lambda>field.
              case fmlookup (own_props entity) field of
                Some (JStr val) \<Rightarrow> includes_str (toLowerCase val) lowerQuery
              | _ \<Rightarrow> False) fieldNames) entities))"

section \<open>Sequences of mutating operations\<close>

text \<open>
  A caller's sequence of \<^verbatim>\<open>create\<close>, \<^verbatim>\<open>update\<close> and \<^verbatim>\<open>delete\<close> calls, each awaited
  before the next; the first error ends the sequence. \<open>run\<close> returns the identifiers that the
  \<^verbatim>\<open>create\<close> calls returned, in call order.
\<close>

datatype mutation = Create props | Update int props | Delete int bool

definition mutate :: "DatabaseManager \<Rightarrow> mutation \<Rightarrow> int option io" where
  "mutate db m =
     (case m of
        Create data \<Rightarrow> io_bind (create db data) (\<lambda>r. io_return (Some (fst r)))
      | Update i data \<Rightarrow> io_bind (update db i data) (\<lambda>_. io_return None)
      | Delete i protectFirst \<Rightarrow> io_bind (delete db i protectFirst) (\<lambda>_. io_return None))"

fun run :: "DatabaseManager \<Rightarrow> mutation list \<Rightarrow> int list io" where
  "run db [] = io_return []"
| "run db (m # ms) =
     io_bind (mutate db m) (\<lambda>r.
     io_bind (run db ms) (\<lambda>ids.
       io_return (case r of Some i \<Rightarrow> i # ids | None \<Rightarrow> ids)))"

section \<open>ProjectManager\<close>

definition REQUIRED_DATA_FILES :: "string list" where
  "REQUIRED_DATA_FILES =
     [''Actors.json'', ''Classes.json'', ''CommonEvents.json'', ''Enemies.json'',
      ''Items.json'', ''MapInfos.json'', ''Skills.json'', ''States.json'',
      ''System.json'', ''Tilesets.json'', ''Troops.json'', ''Weapons.json'',
      ''Armors.json'', ''Animations.json'']"

definition PROJECT_FILES :: "string list" where
  "PROJECT_FILES = [''game.rmmzproject'', ''Game.rmmzproject'']"

record ProjectManager =
  projectPath :: string
  pm_versionSync :: VersionSync

definition ProjectManager_new :: "joiner \<Rightarrow> string \<Rightarrow> ProjectManager" where
  "ProjectManager_new join root =
     \<lparr>projectPath = root, pm_versionSync = VersionSync_new join root\<rparr>"

definition dataPath :: "joiner \<Rightarrow> ProjectManager \<Rightarrow> string" where
  "dataPath join pm = join [projectPath pm, ''data'']"

record validation =
  valid :: bool
  errors :: "string list"

text \<open>The loop over \<^verbatim>\<open>PROJECT_FILES\<close>, which stops at the first name that exists.\<close>

fun find_project_file :: "joiner \<Rightarrow> string \<Rightarrow> string list \<Rightarrow> bool io" where
  "find_project_file join root [] = io_return False"
| "find_project_file join root (name # names) =
     io_bind (exists_file (join [root, name])) (\<lambda>found.
       if found then io_return True else find_project_file join root names)"

text \<open>The loop over \<^verbatim>\<open>REQUIRED_DATA_FILES\<close>, which pushes one error for each missing file.\<close>

fun check_data_files ::
  "joiner \<Rightarrow> string \<Rightarrow> string list \<Rightarrow> string list \<Rightarrow> string list io" where
  "check_data_files join dataDir [] errs = io_return errs"
| "check_data_files join dataDir (file # files) errs =
     io_bind (exists_file (join [dataDir, file])) (\<lambda>found.
       check_data_files join dataDir files
         (if \<not> found then errs @ [''Missing data file: '' @ file] else errs))"

definition validate :: "joiner \<Rightarrow> ProjectManager \<Rightarrow> validation io" where
  "validate join pm =
     io_bind (find_project_file join (projectPath pm) PROJECT_FILES) (\<lambda>foundProjectFile.
       let errs0 = (if \<not> foundProjectFile then [''Missing project file: game.rmmzproject'']
                    else []);
           dataDir = dataPath join pm
       in io_bind (exists_file dataDir) (\<lambda>found.
            if \<not> found then
              io_return \<lparr>valid = False, errors = errs0 @ [''Missing data/ directory'']\<rparr>
            else
              io_bind (check_data_files join dataDir REQUIRED_DATA_FILES errs0) (\<lambda>errs.
                io_return \<lparr>valid = (length errs = 0), errors = errs\<rparr>)))"

section \<open>Auxiliary notions for the statements\<close>

text \<open>
  The file system after the backup step of \<^verbatim>\<open>writeJson\<close>: an existing file at \<open>p\<close> is copied
  to \<open>p.bak\<close> unless the copy fails (a directory sits at \<open>p.bak\<close>), and a failed copy changes
  nothing.
\<close>

definition backed_up :: "string \<Rightarrow> fs \<Rightarrow> fs" where
  "backed_up p s =
     (case s p of
        Some (File c) \<Rightarrow> (if s (p @ ''.bak'') = Some Dir then s else s(p @ ''.bak'' \<mapsto> File c))
      | _ \<Rightarrow> s)"

text \<open>The counter that \<^verbatim>\<open>bump\<close> and \<^verbatim>\<open>current\<close> read from a ledger object.\<close>

definition versionId_of :: "props \<Rightarrow> int" where
  "versionId_of m = (case fmlookup m ''versionId'' of Some (JNum k) \<Rightarrow> k | _ \<Rightarrow> 0)"

text \<open>
  The record document and the ledger document are different files, and neither is the backup
  or the temporary file of the other.
\<close>

definition apart :: "DatabaseManager \<Rightarrow> bool" where
  "apart db \<longleftrightarrow>
     (let fp = filePath db; sp = systemPath (versionSync db)
      in fp \<noteq> sp \<and> fp \<noteq> sp @ ''.bak'' \<and> fp \<noteq> sp @ ''.tmp'' \<and>
         sp \<noteq> fp @ ''.bak'' \<and> sp \<noteq> fp @ ''.tmp'')"

text \<open>The number of \<^verbatim>\<open>create\<close> calls in a sequence.\<close>

definition creates :: "mutation list \<Rightarrow> nat" where
  "creates ms = length (filter (\<lambda>m. case m of Create _ \<Rightarrow> True | _ \<Rightarrow> False) ms)"

section \<open>Concrete projects for the examples\<close>

definition demo_factory :: "int \<Rightarrow> props" where
  "demo_factory i = fmap_of_list [(''id'', JNum i), (''name'', JStr ''''), (''value'', JNum 0)]"

definition demo_db :: DatabaseManager where
  "demo_db =
     DatabaseManager_new path_join ''proj'' ''Test.json'' demo_factory
       (VersionSync_new path_join ''proj'')"

definition demo_system :: props where
  "demo_system = fmap_of_list [(''versionId'', JNum 41), (''gameTitle'', JStr ''Test'')]"

definition first_record :: json where
  "first_record = JObj (fmap_of_list [(''id'', JNum 1), (''name'', JStr ''First''), (''value'', JNum 10)])"

definition second_data :: props where
  "second_data = fmap_of_list [(''name'', JStr ''Second''), (''value'', JNum 20)]"

definition second_record :: json where
  "second_record = JObj (fmap_of_list [(''id'', JNum 2), (''name'', JStr ''Second''), (''value'', JNum 20)])"

definition no_files :: fs where
  "no_files = (\<lambda>_. None)"

definition seeded_disk :: fs where
  "seeded_disk = no_files
     (''proj/data/System.json'' \<mapsto> File (Json (JObj demo_system)),
      ''proj/data/Test.json'' \<mapsto> File (Json (JArr [JNull, first_record])))"

definition fresh_disk :: fs where
  "fresh_disk = no_files
     (''proj/data/System.json'' \<mapsto> File (Json (JObj demo_system)),
      ''proj/data/Test.json'' \<mapsto> File (Json (JArr [JNull])))"

definition two_disk :: fs where
  "two_disk = no_files
     (''proj/data/System.json'' \<mapsto> File (Json (JObj demo_system)),
      ''proj/data/Test.json'' \<mapsto> File (Json (JArr [JNull, first_record, second_record])))"

text \<open>A directory sits where the backup of the record document would go.\<close>

definition blocked_disk :: fs where
  "blocked_disk = no_files
     (''proj/data/Test.json'' \<mapsto> File (Json (JArr [JNull])),
      ''proj/data/Test.json.bak'' \<mapsto> Dir)"

text \<open>A project root with its marker file and no \<^verbatim>\<open>data\<close> directory.\<close>

definition marker_only_disk :: fs where
  "marker_only_disk = no_files(''proj/Game.rmmzproject'' \<mapsto> File (Json (JObj fmempty)))"




definition create_delete_create :: "mutation list" where
  "create_delete_create =
     [Create (fmap_of_list [(''name'', JStr ''A'')]),
      Delete 1 False,
      Create (fmap_of_list [(''name'', JStr ''B'')])]"

section \<open>Properties of FileHandler\<close>

lemma suffix_paths_differ [simp]:
  "p @ ''.tmp'' \<noteq> p" "p \<noteq> p @ ''.tmp''" "p @ ''.bak'' \<noteq> p" "p \<noteq> p @ ''.bak''"
  "p @ ''.bak'' \<noteq> p @ ''.tmp''" "p @ ''.tmp'' \<noteq> p @ ''.bak''"
  by simp_all

text \<open>The three outcomes of \<^verbatim>\<open>writeJson\<close>, by the step that fails.\<close>

lemma writeJson_eq:
  "writeJson p d s =
     (if s (p @ ''.tmp'') = Some Dir then (Inl (EISDIR (p @ ''.tmp'')), backed_up p s)
      else if s p = Some Dir then (Inl (EISDIR p), (backed_up p s)(p @ ''.tmp'' \<mapsto> File (Json d)))
      else (Inr (), ((backed_up p s)(p @ ''.tmp'' := None))(p \<mapsto> File (Json d))))"
  by (auto simp: writeJson_def backed_up_def io_bind_def io_try_def fs_access_def fs_copyFile_def
      fs_writeFile_def fs_rename_def JSON_stringify_def Let_def
      split: option.splits node.splits)

lemma backed_up_other: "q \<noteq> p @ ''.bak'' \<Longrightarrow> backed_up p s q = s q"
  by (simp add: backed_up_def split: option.splits node.splits)

lemma backed_up_bak:
  "s p = Some (File c) \<Longrightarrow> s (p @ ''.bak'') \<noteq> Some Dir \<Longrightarrow> backed_up p s (p @ ''.bak'') = Some (File c)"
  by (simp add: backed_up_def)

lemma writeJson_other:
  assumes "writeJson p d s = (r, s')" and "q \<noteq> p" and "q \<noteq> p @ ''.bak''" and "q \<noteq> p @ ''.tmp''"
  shows "s' q = s q"
  using assms by (auto simp: writeJson_eq backed_up_other split: if_splits)

lemma writeJson_ok:
  assumes "writeJson p d s = (Inr u, s')"
  shows "s' p = Some (File (Json d))" and "s' (p @ ''.tmp'') = None"
  using assms by (auto simp: writeJson_eq split: if_splits)

lemma writeJson_succeeds:
  assumes "s (p @ ''.tmp'') \<noteq> Some Dir" and "s p \<noteq> Some Dir"
  shows "fst (writeJson p d s) = Inr ()"
  using assms by (simp add: writeJson_eq)

lemma writeJson_backup:
  assumes "writeJson p d s = (Inr u, s')" and "s p = Some (File c)" and "s (p @ ''.bak'') \<noteq> Some Dir"
  shows "s' (p @ ''.bak'') = Some (File c)"
  using assms by (auto simp: writeJson_eq backed_up_bak split: if_splits)

lemma readJsonRaw_eq:
  "readJsonRaw p s =
     (case s p of
        None \<Rightarrow> (Inl (ENOENT p), s)
      | Some Dir \<Rightarrow> (Inl (EISDIR p), s)
      | Some (File (Json v)) \<Rightarrow> (Inr v, s)
      | Some (File (NotJson t)) \<Rightarrow> (Inl SyntaxError, s))"
  by (simp add: readJsonRaw_def io_bind_def fs_readFile_def io_lift_def JSON_parse_def
      split: option.splits node.splits content.splits)

lemma readJsonRaw_frame: "snd (readJsonRaw p s) = s"
  by (simp add: readJsonRaw_eq split: option.splits node.splits content.splits)

lemma readJsonRaw_Inr: "readJsonRaw p s = (Inr v, s') \<longleftrightarrow> s p = Some (File (Json v)) \<and> s' = s"
  by (auto simp add: readJsonRaw_eq split: option.splits node.splits content.splits)

section \<open>Read-only operations\<close>

lemma current_frame: "snd (current vs s) = s"
  by (simp add: current_def io_bind_def io_lift_def readJsonRaw_eq
      split: option.splits node.splits content.splits)

lemma list_frame: "snd (list_entities db s) = s"
  by (simp add: list_entities_def readArray_def as_array_def io_bind_def io_return_def
      io_throw_def readJsonRaw_eq split: option.splits node.splits content.splits json.splits)

lemma get_frame: "snd (get db i s) = s"
  by (simp add: get_def readArray_def as_array_def io_bind_def io_return_def io_throw_def
      readJsonRaw_eq split: option.splits node.splits content.splits json.splits)

lemma search_frame: "snd (search db q fieldNames s) = s"
proof -
  obtain r where "list_entities db s = (r, s)"
    using list_frame [of db s] by (cases "list_entities db s") simp
  then show ?thesis
    by (cases r) (simp_all add: search_def io_bind_def io_return_def Let_def)
qed

text \<open>
  Claim C10. The read-only operations \<^verbatim>\<open>list\<close>, \<^verbatim>\<open>get\<close>, \<^verbatim>\<open>search\<close> and \<^verbatim>\<open>current\<close>
  write no file: whether they return or throw, the file system after the call is the file
  system before it, and so \<^verbatim>\<open>current\<close> gives the same answer after the call as before.
\<close>

theorem read_only_operations_write_nothing:
  "snd (list_entities db s) = s \<and>
   snd (get db i s) = s \<and>
   snd (search db query fieldNames s) = s \<and>
   snd (current vs s) = s \<and>
   current vs (snd (list_entities db s)) = current vs s \<and>
   current vs (snd (get db i s)) = current vs s \<and>
   current vs (snd (search db query fieldNames s)) = current vs s \<and>
   current vs (snd (current vs s)) = current vs s"
  by (simp add: list_frame get_frame search_frame current_frame)

text \<open>
  Claim C5. \<^verbatim>\<open>delete(1, true)\<close> always throws the protection error, and it throws before any
  file is read or written: the whole file system (the document, its backup, the ledger) is
  what it was.
\<close>

theorem protected_delete_leaves_everything:
  "delete db 1 True s = (Inl Protected, s)"
  by (simp add: delete_def io_throw_def)

section \<open>Two successive writes\<close>

lemma backed_up_not_dir:
  "s (p @ ''.bak'') \<noteq> Some Dir \<Longrightarrow> backed_up p s (p @ ''.bak'') \<noteq> Some Dir"
  by (simp add: backed_up_def split: option.splits node.splits)

text \<open>
  What two successive writes leave behind when the backup copy can be made: the second
  document at the path, the first one at the backup path, nothing at the temporary path.
\<close>

lemma writeJson_twice:
  assumes "writeJson p x1 s = (Inr u1, s1)" and "writeJson p x2 s1 = (Inr u2, s2)"
    and "s (p @ ''.bak'') \<noteq> Some Dir"
  shows "s2 p = Some (File (Json x2)) \<and> s2 (p @ ''.bak'') = Some (File (Json x1)) \<and>
         s2 (p @ ''.tmp'') = None"
proof -
  have d: "s1 p = Some (File (Json x1))" using writeJson_ok(1) [OF assms(1)] .
  have "s1 (p @ ''.bak'') = backed_up p s (p @ ''.bak'')"
    using assms(1) by (auto simp: writeJson_eq split: if_splits)
  with backed_up_not_dir [of s p] assms(3) have "s1 (p @ ''.bak'') \<noteq> Some Dir" by simp
  from writeJson_backup [OF assms(2) d this] writeJson_ok [OF assms(2)] show ?thesis by simp
qed

text \<open>
  Claim C6 asks \<^verbatim>\<open>writeJson\<close> to abort when the backup copy fails. The \<^verbatim>\<open>catch\<close> that is
  meant for a file that does not exist yet also swallows the failure of \<^verbatim>\<open>copyFile\<close>: with
  a file at the path and a directory at the backup path, the copy fails, and \<^verbatim>\<open>writeJson\<close>
  still returns normally with the file replaced.
\<close>

theorem writeJson_proceeds_after_failed_backup:
  "blocked_disk ''proj/data/Test.json'' = Some (File (Json (JArr [JNull]))) \<and>
   fs_copyFile ''proj/data/Test.json'' (''proj/data/Test.json'' @ ''.bak'') blocked_disk =
     (Inl (EISDIR ''proj/data/Test.json.bak''), blocked_disk) \<and>
   fst (writeJson ''proj/data/Test.json'' (JArr [JNull, first_record]) blocked_disk) = Inr () \<and>
   snd (writeJson ''proj/data/Test.json'' (JArr [JNull, first_record]) blocked_disk)
     ''proj/data/Test.json'' = Some (File (Json (JArr [JNull, first_record])))"
  by (simp add: writeJson_eq backed_up_def blocked_disk_def no_files_def fs_copyFile_def)

text \<open>
  Claim C1 asks that after two successive successful writes the backup path holds the first
  document. On the same disk both writes return normally, the path exists before the second
  write and holds the second document after it, but the backup path still is the directory:
  the first document is nowhere.
\<close>

theorem second_write_without_backup:
  "fst (writeJson ''proj/data/Test.json'' (JArr [JNull, first_record]) blocked_disk) = Inr () \<and>
   snd (writeJson ''proj/data/Test.json'' (JArr [JNull, first_record]) blocked_disk)
     ''proj/data/Test.json'' \<noteq> None \<and>
   fst (writeJson ''proj/data/Test.json'' (JArr [JNull, first_record, second_record])
     (snd (writeJson ''proj/data/Test.json'' (JArr [JNull, first_record]) blocked_disk))) = Inr () \<and>
   snd (writeJson ''proj/data/Test.json'' (JArr [JNull, first_record, second_record])
     (snd (writeJson ''proj/data/Test.json'' (JArr [JNull, first_record]) blocked_disk)))
     ''proj/data/Test.json'' = Some (File (Json (JArr [JNull, first_record, second_record]))) \<and>
   snd (writeJson ''proj/data/Test.json'' (JArr [JNull, first_record, second_record])
     (snd (writeJson ''proj/data/Test.json'' (JArr [JNull, first_record]) blocked_disk)))
     (''proj/data/Test.json'' @ ''.bak'') = Some Dir"
  by (simp add: writeJson_eq backed_up_def blocked_disk_def no_files_def)

section \<open>VersionSync\<close>


lemma bump_obj_eq:
  assumes "s (systemPath vs) = Some (File (Json (JObj m)))"
  shows "bump vs s =
     (let n = add_one (case fmlookup m ''versionId'' of Some (JNum k) \<Rightarrow> k | _ \<Rightarrow> 0) in
      case writeJson (systemPath vs) (JObj (fmupd ''versionId'' (JNum n) m)) s of
        (Inl e, s') \<Rightarrow> (Inl e, s')
      | (Inr _, s') \<Rightarrow> (Inr n, s'))"
  using assms
  by (simp add: bump_def io_bind_def readJsonRaw_eq io_lift_def read_versionId_def
      assign_versionId_def io_return_def Let_def split: option.splits json.splits sum.splits prod.splits)

lemma bump_other:
  assumes "bump vs s = (r, s')"
    and "q \<noteq> systemPath vs" and "q \<noteq> systemPath vs @ ''.bak''" and "q \<noteq> systemPath vs @ ''.tmp''"
  shows "s' q = s q"
proof (cases "readJsonRaw (systemPath vs) s")
  case (Pair a s0)
  then have s0: "s0 = s" using readJsonRaw_frame [of "systemPath vs" s] by simp
  show ?thesis
  proof (cases a)
    case (Inl e)
    with Pair s0 assms(1) show ?thesis by (simp add: bump_def io_bind_def)
  next
    case (Inr system)
    show ?thesis
    proof (cases "read_versionId system")
      case (Inl e)
      with Pair s0 Inr assms(1) show ?thesis by (simp add: bump_def io_bind_def io_lift_def)
    next
      case cur: (Inr c)
      show ?thesis
      proof (cases "assign_versionId system (add_one c)")
        case (Inl e)
        with Pair s0 Inr cur assms(1) show ?thesis
          by (simp add: bump_def io_bind_def io_lift_def Let_def)
      next
        case asg: (Inr system')
        obtain r1 s1 where w: "writeJson (systemPath vs) system' s = (r1, s1)"
          by (cases "writeJson (systemPath vs) system' s")
        from writeJson_other [OF w assms(2,3,4)] have "s1 q = s q" .
        moreover from Pair s0 Inr cur asg w assms(1) have "s' = s1"
          by (cases r1) (auto simp add: bump_def io_bind_def io_lift_def io_return_def Let_def)
        ultimately show ?thesis by simp
      qed
    qed
  qed
qed



section \<open>Successful calls of DatabaseManager\<close>

lemma io_bind_Inr:
  "io_bind m f s = (Inr y, s') \<longleftrightarrow> (\<exists>x s1. m s = (Inr x, s1) \<and> f x s1 = (Inr y, s'))"
  by (cases "m s") (auto simp: io_bind_def split: sum.splits)

lemma io_return_Inr: "io_return x s = (Inr y, s') \<longleftrightarrow> y = x \<and> s' = s"
  by (auto simp: io_return_def)

lemma io_throw_Inr: "io_throw e s = (Inr y, s') \<longleftrightarrow> False"
  by (simp add: io_throw_def)

lemma as_array_Inr: "as_array v s = (Inr xs, s') \<longleftrightarrow> v = JArr xs \<and> s' = s"
  by (cases v) (auto simp: as_array_def io_return_def io_throw_def)

lemma writeArray_Inr:
  "writeArray db xs s = (Inr u, s') \<longleftrightarrow>
     (\<exists>s1 n. writeJson (filePath db) (JArr xs) s = (Inr (), s1) \<and> bump (versionSync db) s1 = (Inr n, s'))"
  by (auto simp: writeArray_def io_bind_Inr io_return_Inr)

lemma writeArray_doc:
  assumes "apart db" and "writeArray db xs s = (Inr u, s')"
  shows "s' (filePath db) = Some (File (Json (JArr xs)))"
proof -
  from assms(2) obtain s1 n where w: "writeJson (filePath db) (JArr xs) s = (Inr (), s1)"
    and b: "bump (versionSync db) s1 = (Inr n, s')"
    by (auto simp: writeArray_Inr)
  have "s' (filePath db) = s1 (filePath db)"
    using assms(1) by (intro bump_other [OF b]) (auto simp add: apart_def Let_def)
  with writeJson_ok(1) [OF w] show ?thesis by simp
qed



lemma create_Inr:
  assumes "create db data s = (Inr (i, e), s')"
  shows "\<exists>arr. s (filePath db) = Some (File (Json (JArr arr))) \<and> i = int (length arr) \<and>
           e = JObj (fmupd ''id'' (JNum i) (defaultFactory db i ++\<^sub>f data)) \<and>
           writeArray db (arr @ [e]) s = (Inr (), s')"
  using assms
  by (auto simp: create_def readArray_def io_bind_Inr io_return_Inr as_array_Inr readJsonRaw_Inr Let_def)

lemma update_Inr:
  assumes "update db i data s = (Inr e, s')"
  shows "\<exists>arr. s (filePath db) = Some (File (Json (JArr arr))) \<and> \<not> missing arr i \<and>
           e = JObj (fmupd ''id'' (JNum i) (own_props (arr ! nat i) ++\<^sub>f data)) \<and>
           writeArray db (arr[nat i := e]) s = (Inr (), s')"
  using assms
  by (auto simp: update_def readArray_def io_bind_Inr io_return_Inr io_throw_Inr as_array_Inr
      readJsonRaw_Inr Let_def split: if_splits)

lemma delete_Inr:
  assumes "delete db i pf s = (Inr u, s')"
  shows "\<exists>arr. s (filePath db) = Some (File (Json (JArr arr))) \<and> \<not> missing arr i \<and>
           \<not> (pf \<and> i = 1) \<and>
           writeArray db (arr[nat i := JNull]) s = (Inr (), s')"
  using assms
  by (auto simp: delete_def readArray_def io_bind_Inr io_return_Inr io_throw_Inr as_array_Inr
      readJsonRaw_Inr Let_def split: if_splits)

lemma get_eq:
  assumes "s (filePath db) = Some (File (Json (JArr arr)))"
  shows "get db i s = (if missing arr i then (Inl (NotFound i), s) else (Inr (arr ! nat i), s))"
  using assms
  by (simp add: get_def readArray_def io_bind_def readJsonRaw_eq as_array_def io_return_def io_throw_def)

section \<open>Record document and ledger document\<close>

lemma System_json_no_suffix:
  "''System.json'' \<noteq> f @ ''.bak''" "''System.json'' \<noteq> f @ ''.tmp''"
proof -
  have k: "last (f @ ''.bak'') = CHR ''k''" by simp
  have p: "last (f @ ''.tmp'') = CHR ''p''" by simp
  have n: "last ''System.json'' = CHR ''n''" by simp
  show "''System.json'' \<noteq> f @ ''.bak''"
  proof
    assume "''System.json'' = f @ ''.bak''"
    then have "last ''System.json'' = last (f @ ''.bak'')" by (rule arg_cong)
    with k n show False by simp
  qed
  show "''System.json'' \<noteq> f @ ''.tmp''"
  proof
    assume "''System.json'' = f @ ''.tmp''"
    then have "last ''System.json'' = last (f @ ''.tmp'')" by (rule arg_cong)
    with p n show False by simp
  qed
qed


text \<open>
  A manager and a ledger built by the constructors for the same project, with the POSIX
  join on plain segments, are apart unless the manager is given the ledger's own file name
  or that of its backup or temporary file.
\<close>

lemma path_join_data:
  "path_join [root, ''data'', f] =
     (if root = [] then ''data'' else root @ ''/data'') @ (if f = [] then [] else ''/'' @ f)"
  by (simp add: path_join_def)

lemma apart_same_project:
  assumes "filename \<noteq> ''System.json''" and "filename \<noteq> ''System.json.bak''"
    and "filename \<noteq> ''System.json.tmp''"
  shows "apart (DatabaseManager_new path_join root filename factory (VersionSync_new path_join root))"
proof -
  let ?db = "DatabaseManager_new path_join root filename factory (VersionSync_new path_join root)"
  let ?pre = "if root = [] then ''data'' else root @ ''/data''"
  have sp: "systemPath (versionSync ?db) = ?pre @ ''/System.json''"
    by (simp add: DatabaseManager_new_def VersionSync_new_def path_join_data)
  show ?thesis
  proof (cases "filename = []")
    case True
    then have fp: "filePath ?db = ?pre"
      by (simp add: DatabaseManager_new_def path_join_data)
    show ?thesis
      unfolding apart_def Let_def fp sp by simp
  next
    case False
    then have fp: "filePath ?db = ?pre @ ''/'' @ filename"
      by (simp add: DatabaseManager_new_def path_join_data)
    have a: "?pre @ ''/'' @ filename \<noteq> ?pre @ ''/System.json''" using assms(1) by simp
    have b: "?pre @ ''/'' @ filename \<noteq> (?pre @ ''/System.json'') @ ''.bak''" using assms(2) by simp
    have c: "?pre @ ''/'' @ filename \<noteq> (?pre @ ''/System.json'') @ ''.tmp''" using assms(3) by simp
    have d: "?pre @ ''/System.json'' \<noteq> (?pre @ ''/'' @ filename) @ ''.bak''"
      using System_json_no_suffix(1) [of filename] by simp
    have e: "?pre @ ''/System.json'' \<noteq> (?pre @ ''/'' @ filename) @ ''.tmp''"
      using System_json_no_suffix(2) [of filename] by simp
    show ?thesis
      unfolding apart_def Let_def fp sp using a b c d e by blast
  qed
qed

section \<open>Create and delete\<close>

text \<open>
  Claim C3. On a document holding an array of length \<open>L\<close>, a successful \<^verbatim>\<open>create\<close> returns
  the identifier \<open>L\<close> and an entity whose \<^verbatim>\<open>id\<close> is \<open>L\<close> whatever the caller passed, whose
  other fields are the caller's where the caller gave one and those of \<^verbatim>\<open>defaultFactory(L)\<close>
  otherwise; the document then holds the old array with the entity appended as slot \<open>L\<close>.
\<close>

theorem create_assigns_next_slot:
  assumes "apart db"
    and "s (filePath db) = Some (File (Json (JArr arr)))"
    and "create db data s = (Inr (i, entity), s')"
  shows "i = int (length arr) \<and>
         (\<exists>e. entity = JObj e \<and>
            (\<forall>k. fmlookup e k =
               (if k = ''id'' then Some (JNum (int (length arr)))
                else case fmlookup data k of
                       Some v \<Rightarrow> Some v
                     | None \<Rightarrow> fmlookup (defaultFactory db (int (length arr))) k))) \<and>
         s' (filePath db) = Some (File (Json (JArr (arr @ [entity]))))"
proof -
  from create_Inr [OF assms(3)] assms(2) have i: "i = int (length arr)"
    and e: "entity = JObj (fmupd ''id'' (JNum i) (defaultFactory db i ++\<^sub>f data))"
    and w: "writeArray db (arr @ [entity]) s = (Inr (), s')" by auto
  have d: "s' (filePath db) = Some (File (Json (JArr (arr @ [entity]))))"
    using writeArray_doc [OF assms(1) w] .
  have l: "\<forall>k. fmlookup (fmupd ''id'' (JNum i) (defaultFactory db i ++\<^sub>f data)) k =
               (if k = ''id'' then Some (JNum (int (length arr)))
                else case fmlookup data k of
                       Some v \<Rightarrow> Some v
                     | None \<Rightarrow> fmlookup (defaultFactory db (int (length arr))) k)"
    using i by (auto split: option.splits)
  show ?thesis using i e d l by blast
qed

text \<open>
  Claim C4. After a successful \<^verbatim>\<open>delete\<close> of \<open>k\<close>, whatever \<^verbatim>\<open>protectFirst\<close> was, \<open>k\<close> was a
  valid identifier, the document holds an array of the same length whose slot \<open>k\<close> is the
  sentinel, \<^verbatim>\<open>get\<close> of \<open>k\<close> reports that it is not found, and \<^verbatim>\<open>get\<close> of every other
  identifier that had a record returns the record it returned before.
\<close>

theorem delete_keeps_other_ids:
  assumes "apart db"
    and "s (filePath db) = Some (File (Json (JArr arr)))"
    and "delete db k protectFirst s = (Inr (), s')"
  shows "1 \<le> k \<and> k < int (length arr) \<and>
         (\<exists>arr'. s' (filePath db) = Some (File (Json (JArr arr'))) \<and>
            length arr' = length arr \<and> arr' ! nat k = JNull) \<and>
         get db k s' = (Inl (NotFound k), s') \<and>
         (\<forall>j r. j \<noteq> k \<longrightarrow> get db j s = (Inr r, s) \<longrightarrow> get db j s' = (Inr r, s'))"
proof -
  from delete_Inr [OF assms(3)] assms(2) have m: "\<not> missing arr k"
    and w: "writeArray db (arr[nat k := JNull]) s = (Inr (), s')" by auto
  have d: "s' (filePath db) = Some (File (Json (JArr (arr[nat k := JNull]))))"
    using writeArray_doc [OF assms(1) w] .
  from m have k: "1 \<le> k" "k < int (length arr)" by (auto simp: missing_def)
  then have nk: "nat k < length arr" by simp
  have g: "get db k s' = (Inl (NotFound k), s')"
    using nk d by (simp add: get_eq [where s = s' and arr = "arr[nat k := JNull]"] missing_def)
  have o: "get db j s' = (Inr r, s')" if "j \<noteq> k" and "get db j s = (Inr r, s)" for j r
  proof -
    from that(2) have mj: "\<not> missing arr j" and r: "r = arr ! nat j"
      using assms(2) by (auto simp: get_eq [where s = s and arr = arr] split: if_splits)
    from mj have "1 \<le> j" by (auto simp: missing_def)
    with k that(1) have "nat j \<noteq> nat k" by simp
    with mj r d show ?thesis
      by (simp add: get_eq [where s = s' and arr = "arr[nat k := JNull]"] missing_def)
  qed
  show ?thesis using k d g o nk by auto
qed

section \<open>When the mutating operations succeed\<close>

lemma tmp_is_no_bak: "p @ ''.tmp'' \<noteq> q @ ''.bak''"
proof
  assume "p @ ''.tmp'' = q @ ''.bak''"
  then have "last (p @ ''.tmp'') = last (q @ ''.bak'')" by (rule arg_cong)
  then show False by simp
qed

lemma bump_succeeds:
  assumes "s (systemPath vs) = Some (File (Json (JObj m)))"
    and "s (systemPath vs @ ''.tmp'') \<noteq> Some Dir"
  shows "fst (bump vs s) = Inr (add_one (versionId_of m))"
proof -
  have nd: "s (systemPath vs) \<noteq> Some Dir" using assms(1) by simp
  let ?d = "JObj (fmupd ''versionId'' (JNum (add_one (versionId_of m))) m)"
  have "fst (writeJson (systemPath vs) ?d s) = Inr ()"
    using writeJson_succeeds [of s "systemPath vs" ?d] assms(2) nd by simp
  then show ?thesis
    using assms(1)
    by (cases "writeJson (systemPath vs) ?d s")
      (simp add: bump_obj_eq [of s vs m] versionId_of_def Let_def)
qed

lemma writeArray_succeeds:
  assumes "apart db"
    and "s (filePath db) \<noteq> Some Dir" and "s (filePath db @ ''.tmp'') \<noteq> Some Dir"
    and "s (systemPath (versionSync db)) = Some (File (Json (JObj m)))"
    and "s (systemPath (versionSync db) @ ''.tmp'') \<noteq> Some Dir"
  shows "fst (writeArray db xs s) = Inr ()"
proof -
  let ?fp = "filePath db" and ?sp = "systemPath (versionSync db)"
  have "fst (writeJson ?fp (JArr xs) s) = Inr ()"
    using writeJson_succeeds [of s ?fp "JArr xs"] assms(2,3) by simp
  then obtain s1 where w: "writeJson ?fp (JArr xs) s = (Inr (), s1)"
    by (cases "writeJson ?fp (JArr xs) s") simp
  have "s1 ?sp = s ?sp"
    using assms(1) by (intro writeJson_other [OF w]) (auto simp add: apart_def Let_def)
  with assms(4) have l: "s1 ?sp = Some (File (Json (JObj m)))" by simp
  have "s1 (?sp @ ''.tmp'') = s (?sp @ ''.tmp'')"
    using assms(1) tmp_is_no_bak [of ?sp ?fp]
    by (intro writeJson_other [OF w]) (auto simp add: apart_def Let_def)
  with assms(5) have t: "s1 (?sp @ ''.tmp'') \<noteq> Some Dir" by simp
  have "fst (bump (versionSync db) s1) = Inr (add_one (versionId_of m))"
    using bump_succeeds [of s1 "versionSync db" m] l t by simp
  then show ?thesis
    using w by (cases "bump (versionSync db) s1") (simp add: writeArray_def io_bind_def io_return_def)
qed

text \<open>
  When the two documents are regular files of the expected kind and no directory sits at a
  temporary path, \<^verbatim>\<open>create\<close> succeeds, and so do \<^verbatim>\<open>update\<close> and \<^verbatim>\<open>delete\<close> of an
  identifier that has a record.
\<close>

lemma mutations_succeed:
  assumes "apart db"
    and "s (filePath db) = Some (File (Json (JArr arr)))"
    and "s (filePath db @ ''.tmp'') \<noteq> Some Dir"
    and "s (systemPath (versionSync db)) = Some (File (Json (JObj m)))"
    and "s (systemPath (versionSync db) @ ''.tmp'') \<noteq> Some Dir"
  shows "fst (create db data s) =
           Inr (int (length arr),
                JObj (fmupd ''id'' (JNum (int (length arr)))
                       (defaultFactory db (int (length arr)) ++\<^sub>f data)))"
    and "\<not> missing arr i \<Longrightarrow>
         fst (update db i data s) =
           Inr (JObj (fmupd ''id'' (JNum i) (own_props (arr ! nat i) ++\<^sub>f data)))"
    and "\<not> missing arr i \<Longrightarrow> \<not> (protectFirst \<and> i = 1) \<Longrightarrow>
         fst (delete db i protectFirst s) = Inr ()"
proof -
  have nd: "s (filePath db) \<noteq> Some Dir" using assms(2) by simp
  have w: "fst (writeArray db xs s) = Inr ()" for xs
    using writeArray_succeeds [of db s m xs] assms(1,3,4,5) nd by simp
  show "fst (create db data s) =
           Inr (int (length arr),
                JObj (fmupd ''id'' (JNum (int (length arr)))
                       (defaultFactory db (int (length arr)) ++\<^sub>f data)))"
    using assms(2) w [of "arr @ [JObj (fmupd ''id'' (JNum (int (length arr)))
                       (defaultFactory db (int (length arr)) ++\<^sub>f data))]"]
    by (cases "writeArray db (arr @ [JObj (fmupd ''id'' (JNum (int (length arr)))
                       (defaultFactory db (int (length arr)) ++\<^sub>f data))]) s")
      (simp add: create_def readArray_def io_bind_def readJsonRaw_eq as_array_def io_return_def Let_def)
  show "fst (update db i data s) =
           Inr (JObj (fmupd ''id'' (JNum i) (own_props (arr ! nat i) ++\<^sub>f data)))"
    if "\<not> missing arr i"
    using that assms(2)
      w [of "arr[nat i := JObj (fmupd ''id'' (JNum i) (own_props (arr ! nat i) ++\<^sub>f data))]"]
    by (cases "writeArray db (arr[nat i := JObj (fmupd ''id'' (JNum i) (own_props (arr ! nat i) ++\<^sub>f data))]) s")
      (simp add: update_def readArray_def io_bind_def readJsonRaw_eq as_array_def io_return_def Let_def)
  show "fst (delete db i protectFirst s) = Inr ()"
    if "\<not> missing arr i" and "\<not> (protectFirst \<and> i = 1)"
    using that assms(2) w [of "arr[nat i := JNull]"]
    by (cases "writeArray db (arr[nat i := JNull]) s")
      (auto simp add: delete_def readArray_def io_bind_def readJsonRaw_eq as_array_def io_return_def)
qed

section \<open>Sequences of mutations\<close>


lemma versionId_of_bumped [simp]: "versionId_of (fmupd ''versionId'' (JNum n) m) = n"
  by (simp add: versionId_of_def)




lemma mutate_doc:
  assumes "apart db" and "s (filePath db) = Some (File (Json (JArr arr)))"
    and "mutate db op s = (Inr r, s')"
  shows "\<exists>arr'. s' (filePath db) = Some (File (Json (JArr arr'))) \<and>
           (case op of
              Create _ \<Rightarrow> r = Some (int (length arr)) \<and> length arr' = Suc (length arr)
            | _ \<Rightarrow> r = None \<and> length arr' = length arr)"
proof (cases op)
  case (Create data)
  with assms(3) obtain i e where c: "create db data s = (Inr (i, e), s')" and r: "r = Some i"
    by (auto simp: mutate_def io_bind_Inr io_return_Inr)
  from create_Inr [OF c] assms(2) have i: "i = int (length arr)"
    and w: "writeArray db (arr @ [e]) s = (Inr (), s')" by auto
  from writeArray_doc [OF assms(1) w] i r Create show ?thesis by simp
next
  case (Update i data)
  with assms(3) obtain e where u: "update db i data s = (Inr e, s')" and r: "r = None"
    by (auto simp: mutate_def io_bind_Inr io_return_Inr)
  from update_Inr [OF u] assms(2) have w: "writeArray db (arr[nat i := e]) s = (Inr (), s')" by auto
  from writeArray_doc [OF assms(1) w] r Update show ?thesis by simp
next
  case (Delete i pf)
  with assms(3) have d: "delete db i pf s = (Inr (), s')" and r: "r = None"
    by (auto simp: mutate_def io_bind_Inr io_return_Inr)
  from delete_Inr [OF d] assms(2) have w: "writeArray db (arr[nat i := JNull]) s = (Inr (), s')" by auto
  from writeArray_doc [OF assms(1) w] r Delete show ?thesis by simp
qed

lemma creates_simps [simp]:
  "creates [] = 0"
  "creates (Create d # ms) = Suc (creates ms)"
  "creates (Update i d # ms) = creates ms"
  "creates (Delete i b # ms) = creates ms"
  by (simp_all add: creates_def)

lemma run_ids:
  assumes "apart db"
  shows "s (filePath db) = Some (File (Json (JArr arr))) \<Longrightarrow>
         run db ops s = (Inr ids, s') \<Longrightarrow>
         ids = map int [length arr ..< length arr + creates ops]"
proof (induction ops arbitrary: s arr ids)
  case Nil
  then show ?case by (simp add: io_return_Inr)
next
  case (Cons op ops)
  from Cons.prems(2) obtain r s1 ids1 where m: "mutate db op s = (Inr r, s1)"
    and r: "run db ops s1 = (Inr ids1, s')"
    and ids: "ids = (case r of Some i \<Rightarrow> i # ids1 | None \<Rightarrow> ids1)"
    by (auto simp: io_bind_Inr io_return_Inr)
  from mutate_doc [OF assms Cons.prems(1) m] obtain arr' where
    a: "s1 (filePath db) = Some (File (Json (JArr arr')))" and
    k: "(case op of Create _ \<Rightarrow> r = Some (int (length arr)) \<and> length arr' = Suc (length arr)
            | _ \<Rightarrow> r = None \<and> length arr' = length arr)" by blast
  from Cons.IH [OF a r] have ih: "ids1 = map int [length arr' ..< length arr' + creates ops]" .
  show ?case
  proof (cases op)
    case (Create data)
    with k ids ih show ?thesis by (simp add: upt_conv_Cons del: upt_Suc)
  next
    case (Update i data)
    with k ids ih show ?thesis by simp
  next
    case (Delete i pf)
    with k ids ih show ?thesis by simp
  qed
qed

text \<open>
  Claim C7. On a document seeded with the sentinel only, the identifiers returned by the
  \<^verbatim>\<open>create\<close> calls of a successful sequence are 1, 2, 3, ... in call order, whatever
  \<^verbatim>\<open>delete\<close> (or \<^verbatim>\<open>update\<close>) calls come in between: with the calls numbered from 0, as
  the positions of a list are, the call at position \<open>n\<close> returns \<open>n + 1\<close>.
\<close>

theorem create_ids_count_from_one:
  assumes "apart db"
    and "s (filePath db) = Some (File (Json (JArr [JNull])))"
    and "run db ops s = (Inr ids, s')"
  shows "length ids = creates ops \<and> (\<forall>n < length ids. ids ! n = int n + 1)"
  using run_ids [OF assms] by (simp del: upt_Suc)

section \<open>ProjectManager.validate\<close>

lemma exists_file_eq: "exists_file p s = (Inr (s p \<noteq> None), s)"
  by (simp add: exists_file_def fs_access_def split: option.splits)

lemma find_project_file_eq:
  "find_project_file join root PROJECT_FILES s =
     (Inr (s (join [root, ''game.rmmzproject'']) \<noteq> None \<or>
           s (join [root, ''Game.rmmzproject'']) \<noteq> None), s)"
  by (simp add: PROJECT_FILES_def io_bind_def exists_file_eq io_return_def)

text \<open>
  Claim C9, as the code has it. When nothing exists at the data path (neither a directory
  nor a file), \<^verbatim>\<open>validate\<close> returns at once with \<open>valid = False\<close>, writes nothing and lists
  no data file; its errors end with the missing-directory message, which stands alone when
  one of the two marker files exists and follows the missing-project-file message when
  neither does. This holds for every \<^verbatim>\<open>path.join\<close>.
\<close>

theorem validate_without_data_directory:
  assumes "s (dataPath join pm) = None"
  shows "validate join pm s =
     (Inr \<lparr>valid = False,
           errors =
             (if s (join [projectPath pm, ''game.rmmzproject'']) = None \<and>
                 s (join [projectPath pm, ''Game.rmmzproject'']) = None
              then [''Missing project file: game.rmmzproject''] else []) @
             [''Missing data/ directory'']\<rparr>, s)"
  using assms
  by (simp add: validate_def io_bind_def find_project_file_eq exists_file_eq io_return_def Let_def)

text \<open>
  Claim C9 as stated fails on a root that has neither a marker file nor anything at its data
  path: the result carries two error strings.
\<close>

theorem validate_reports_missing_marker_too:
  "no_files (dataPath path_join (ProjectManager_new path_join ''proj'')) = None \<and>
   validate path_join (ProjectManager_new path_join ''proj'') no_files =
     (Inr \<lparr>valid = False,
           errors = [''Missing project file: game.rmmzproject'', ''Missing data/ directory'']\<rparr>,
      no_files) \<and>
   validate path_join (ProjectManager_new path_join ''proj'') no_files \<noteq>
     (Inr \<lparr>valid = False, errors = [''Missing data/ directory'']\<rparr>, no_files)"
  by (simp add: validate_def io_bind_def find_project_file_eq exists_file_eq io_return_def Let_def
      no_files_def)

theorem validate_without_data_directory_witness:
  "marker_only_disk (dataPath path_join (ProjectManager_new path_join ''proj'')) = None \<and>
   validate path_join (ProjectManager_new path_join ''proj'') marker_only_disk =
     (Inr \<lparr>valid = False, errors = [''Missing data/ directory'']\<rparr>, marker_only_disk)"
proof -
  have d: "marker_only_disk (dataPath path_join (ProjectManager_new path_join ''proj'')) = None"
    by (simp add: marker_only_disk_def no_files_def dataPath_def ProjectManager_new_def
        path_join_def)
  have m: "marker_only_disk
      (path_join [projectPath (ProjectManager_new path_join ''proj''), ''Game.rmmzproject'']) \<noteq> None"
    by (simp add: marker_only_disk_def ProjectManager_new_def path_join_def)
  show ?thesis
    using validate_without_data_directory
      [where s = marker_only_disk and pm = "ProjectManager_new path_join ''proj''"
        and join = path_join] d m by simp
qed

text \<open>
  When something exists at the data path, be it a regular file, \<^verbatim>\<open>validate\<close> does not stop
  there: it goes through the required files, and the missing-directory message is not among
  its errors.
\<close>

lemma check_data_files_eq:
  "check_data_files join dataDir files errs s =
     (Inr (errs @ map (\<lambda>file. ''Missing data file: '' @ file)
                    (filter (\<lambda>file. s (join [dataDir, file]) = None) files)), s)"
  by (induction files arbitrary: errs)
    (simp_all add: io_return_def io_bind_def exists_file_eq)

lemma validate_with_data_path_present:
  assumes "s (dataPath join pm) \<noteq> None"
  shows "\<exists>v. validate join pm s = (Inr v, s) \<and> ''Missing data/ directory'' \<notin> set (errors v)"
  using assms
  by (auto simp add: validate_def io_bind_def find_project_file_eq exists_file_eq io_return_def
      Let_def check_data_files_eq)

section \<open>The statements at concrete projects\<close>

lemma demo_paths [simp]:
  "filePath demo_db = ''proj/data/Test.json''"
  "systemPath (versionSync demo_db) = ''proj/data/System.json''"
  "defaultFactory demo_db = demo_factory"
  by (simp_all add: demo_db_def DatabaseManager_new_def VersionSync_new_def path_join_def)

lemma demo_apart: "apart demo_db"
  by (simp add: apart_def Let_def)

lemma second_entity:
  "JObj (fmupd ''id'' (JNum 2) (demo_factory 2 ++\<^sub>f second_data)) = second_record"
  unfolding second_record_def json.inject
  by (rule fmap_ext) (simp add: demo_factory_def second_data_def fmlookup_of_list)

lemmas demo_eval =
  create_def update_def delete_def mutate_def readArray_def io_bind_def readJsonRaw_eq as_array_def
  io_return_def io_throw_def writeArray_def writeJson_eq backed_up_def no_files_def Let_def missing_def
  bump_def add_one_def io_lift_def read_versionId_def assign_versionId_def demo_system_def
  fmlookup_of_list

lemma create_on_seed:
  "fst (create demo_db second_data seeded_disk) = Inr (2, second_record)"
  by (simp add: demo_eval seeded_disk_def second_entity)

theorem create_assigns_next_slot_witness:
  "apart demo_db \<and>
   seeded_disk (filePath demo_db) = Some (File (Json (JArr [JNull, first_record]))) \<and>
   fst (create demo_db second_data seeded_disk) = Inr (2, second_record) \<and>
   snd (create demo_db second_data seeded_disk) (filePath demo_db) =
     Some (File (Json (JArr [JNull, first_record, second_record]))) \<and>
   fst (list_entities demo_db (snd (create demo_db second_data seeded_disk))) =
     Inr [first_record, second_record]"
proof -
  let ?s' = "snd (create demo_db second_data seeded_disk)"
  have seed: "seeded_disk (filePath demo_db) = Some (File (Json (JArr [JNull, first_record])))"
    by (simp add: seeded_disk_def)
  have c: "create demo_db second_data seeded_disk = (Inr (2, second_record), ?s')"
    using create_on_seed by (cases "create demo_db second_data seeded_disk") simp
  from create_assigns_next_slot [OF demo_apart seed c]
  have d: "?s' (filePath demo_db) = Some (File (Json (JArr ([JNull, first_record] @ [second_record]))))"
    by blast
  then have l: "fst (list_entities demo_db ?s') = Inr [first_record, second_record]"
    by (simp add: list_entities_def demo_eval first_record_def second_record_def)
  show ?thesis using demo_apart seed create_on_seed d l by simp
qed

theorem delete_keeps_other_ids_witness:
  "apart demo_db \<and>
   two_disk (filePath demo_db) = Some (File (Json (JArr [JNull, first_record, second_record]))) \<and>
   fst (delete demo_db 1 False two_disk) = Inr () \<and>
   get demo_db 2 two_disk = (Inr second_record, two_disk) \<and>
   fst (get demo_db 2 (snd (delete demo_db 1 False two_disk))) = Inr second_record \<and>
   fst (get demo_db 1 (snd (delete demo_db 1 False two_disk))) = Inl (NotFound 1)"
proof -
  let ?s' = "snd (delete demo_db 1 False two_disk)"
  have doc: "two_disk (filePath demo_db) = Some (File (Json (JArr [JNull, first_record, second_record])))"
    by (simp add: two_disk_def)
  have f: "fst (delete demo_db 1 False two_disk) = Inr ()"
    by (simp add: demo_eval two_disk_def first_record_def)
  then have d: "delete demo_db 1 False two_disk = (Inr (), ?s')"
    by (cases "delete demo_db 1 False two_disk") simp
  have g: "get demo_db 2 two_disk = (Inr second_record, two_disk)"
    using doc by (simp add: get_eq [where arr = "[JNull, first_record, second_record]"] missing_def
        second_record_def)
  from delete_keeps_other_ids [OF demo_apart doc d] g
  have "get demo_db 1 ?s' = (Inl (NotFound 1), ?s')" and "get demo_db 2 ?s' = (Inr second_record, ?s')"
    by auto
  with demo_apart doc f g show ?thesis by simp
qed





lemma run_create_delete_create: "fst (run demo_db create_delete_create fresh_disk) = Inr [1, 2]"
  by (simp add: create_delete_create_def demo_eval fresh_disk_def demo_factory_def)

theorem create_ids_count_from_one_witness:
  "apart demo_db \<and>
   fresh_disk (filePath demo_db) = Some (File (Json (JArr [JNull]))) \<and>
   fst (run demo_db create_delete_create fresh_disk) = Inr [1, 2] \<and>
   creates create_delete_create = 2 \<and>
   [1, 2 :: int] ! 0 = 1 \<and> [1, 2 :: int] ! 1 = 2"
proof -
  let ?s' = "snd (run demo_db create_delete_create fresh_disk)"
  have doc: "fresh_disk (filePath demo_db) = Some (File (Json (JArr [JNull])))"
    by (simp add: fresh_disk_def)
  have r: "run demo_db create_delete_create fresh_disk = (Inr [1, 2], ?s')"
    using run_create_delete_create by (cases "run demo_db create_delete_create fresh_disk") simp
  from create_ids_count_from_one [OF demo_apart doc r]
  have "creates create_delete_create = 2" by simp
  with demo_apart doc run_create_delete_create show ?thesis by simp
qed

end
